theory Spec2Isabelle
  imports Complex_Main "HOL-Library.Sublist" "HOL-Library.Word"
begin

unbundle bit_operations_syntax

section \<open>JavaScript values\<close>

text \<open>
  The pipeline is TypeScript; its run-time values are JavaScript values. A string is a
  sequence of 16-bit code units; \<open>utf16\<close> gives the code units of an ASCII literal. A
  number is an IEEE double: every finite double is a rational, so a finite number is
  modelled by its rational value (comparisons of doubles agree with those of their
  values), beside the three special values. Arithmetic on numbers is modelled only where
  it is exact (whole numbers up to \<open>2^53\<close>); elsewhere it is a parameter of the model.
\<close>

type_synonym jsstring = "16 word list"

definition utf16 :: "string \<Rightarrow> jsstring" where
  "utf16 s = map of_char s"

datatype jsnum = NaN | Finite rat | PosInfinity | NegInfinity

datatype jsval =
    JUndefined
  | JNull
  | JBool bool
  | JNum jsnum
  | JStr jsstring
  | JArr "jsval list"
  | JObj "(jsstring \<times> jsval) list"

text \<open>
  A \<open>Date\<close> holds a time value: a whole number of milliseconds since the epoch, or NaN
  (an "Invalid Date"). \<open>getTime\<close> returns the time value; \<open>None\<close> stands for NaN.
\<close>

datatype jsdate = InvalidDate | DateMs int

fun getTime :: "jsdate \<Rightarrow> int option" where
  "getTime InvalidDate = None"
| "getTime (DateMs t) = Some t"

section \<open>Thrown values\<close>

text \<open>
  A \<open>throw\<close> is a result \<open>Inl\<close>. \<open>Error m\<close> is an \<open>Error\<close> object with message \<open>m\<close>
  raised by the run time or a library (axios, \<open>JSON.parse\<close>, the XML parser, \<open>fs\<close>);
  \<open>NonError\<close> is a thrown value that is not an instance of \<open>Error\<close>. The errors the
  program itself constructs have a constructor each, named after what their message says.
\<close>

datatype thrown =
    Error jsstring
  | NonError
  | InvalidScore jsnum
  | MissingReason
  | CannotParseAIResponse thrown
  | EmptyAIResponse
  | EmptyClaudeResponse
  | MissingApiKey

section \<open>Operations of the language\<close>

text \<open>
  Property access \<open>v.k\<close> for the property names the program reads: it throws a
  \<open>TypeError\<close> on \<open>undefined\<close> and \<open>null\<close>, finds an own property of an object, and
  is \<open>undefined\<close> otherwise. None of the names is on a prototype, except \<open>link\<close>, a
  method of strings: the program reads it only to call \<open>match\<close> on it, which throws on a
  method as it does on \<open>undefined\<close>. \<open>optProp\<close> is \<open>v?.k\<close>.
\<close>

definition TypeError :: thrown where
  "TypeError = Error (utf16 ''TypeError'')"

fun getProp :: "jsval \<Rightarrow> jsstring \<Rightarrow> thrown + jsval" where
  "getProp JUndefined k = Inl TypeError"
| "getProp JNull k = Inl TypeError"
| "getProp (JObj kvs) k = Inr (case map_of kvs k of Some v \<Rightarrow> v | None \<Rightarrow> JUndefined)"
| "getProp v k = Inr JUndefined"

fun optProp :: "jsval \<Rightarrow> jsstring \<Rightarrow> jsval" where
  "optProp (JObj kvs) k = (case map_of kvs k of Some v \<Rightarrow> v | None \<Rightarrow> JUndefined)"
| "optProp v k = JUndefined"

text \<open>Truthiness, and \<open>a || b\<close> on values whose evaluation has no effect.\<close>

fun truthy :: "jsval \<Rightarrow> bool" where
  "truthy JUndefined = False"
| "truthy JNull = False"
| "truthy (JBool b) = b"
| "truthy (JNum n) = (n \<noteq> NaN \<and> n \<noteq> Finite 0)"
| "truthy (JStr s) = (s \<noteq> [])"
| "truthy (JArr xs) = True"
| "truthy (JObj kvs) = True"

definition or_else :: "jsval \<Rightarrow> jsval \<Rightarrow> jsval" where
  "or_else a b = (if truthy a then a else b)"

text \<open>
  The built-in algorithms that the program calls but does not contain are parameters:
  \<open>JSON.parse\<close>, the conversion of a string to a number, the rendering of a number
  that is not a whole number up to \<open>2^53\<close>, the floating-point product, \<open>Date.parse\<close>
  (\<open>None\<close> is NaN), \<open>Date.prototype.toISOString\<close>, and the XML parser of the feed
  adapters, applied to the response body.
\<close>

record runtime =
  JSON_parse :: "jsstring \<Rightarrow> thrown + jsval"
  StringToNumber :: "jsstring \<Rightarrow> jsnum"
  NumberToString :: "rat \<Rightarrow> jsstring"
  Multiply :: "rat \<Rightarrow> rat \<Rightarrow> jsnum"
  Date_parse :: "jsstring \<Rightarrow> int option"
  toISOString :: "int \<Rightarrow> jsstring"
  XML_parse :: "jsval \<Rightarrow> thrown + jsval"

text \<open>
  Whole numbers are rendered in a radix: 10 for \<open>String(n)\<close>, 36 in \<open>hashString\<close>
  (the program uses no other; a radix is between 2 and 36). A whole number up to \<open>2^53\<close>
  is a double, and its shortest decimal rendering is the numeral itself.
\<close>

definition digit :: "nat \<Rightarrow> 16 word" where
  "digit n = utf16 ''0123456789abcdefghijklmnopqrstuvwxyz'' ! n"

function toRadix :: "nat \<Rightarrow> nat \<Rightarrow> jsstring" where
  "toRadix b n = (if n < b \<or> b < 2 then [digit n] else toRadix b (n div b) @ [digit (n mod b)])"
  by pat_completeness auto
termination
  by (relation "measure (\<lambda>(b, n). n)") auto

declare toRadix.simps [simp del]

definition intToString :: "int \<Rightarrow> jsstring" where
  "intToString i = (if i < 0 then utf16 ''-'' @ toRadix 10 (nat (- i)) else toRadix 10 (nat i))"

fun numberToString :: "runtime \<Rightarrow> jsnum \<Rightarrow> jsstring" where
  "numberToString rt NaN = utf16 ''NaN''"
| "numberToString rt PosInfinity = utf16 ''Infinity''"
| "numberToString rt NegInfinity = utf16 ''-Infinity''"
| "numberToString rt (Finite q) =
     (if of_int \<lfloor>q\<rfloor> = q \<and> \<bar>q\<bar> \<le> 9007199254740992 then intToString \<lfloor>q\<rfloor>
      else NumberToString rt q)"

fun join :: "jsstring \<Rightarrow> jsstring list \<Rightarrow> jsstring" where
  "join sep [] = []"
| "join sep [x] = x"
| "join sep (x # y # ys) = x @ sep @ join sep (y # ys)"

text \<open>
  \<open>ToString\<close> is \<open>String(v)\<close> and the conversion of a template literal \<open>`${v}`\<close>. On an
  object it calls the method \<open>toString\<close>: an object that has an own property of that
  name (never a function in a value that was parsed) throws a \<open>TypeError\<close>, any other
  object gives \<open>[object Object]\<close>. An array joins the strings of its elements, so it
  throws when one of them does. \<open>collect\<close> evaluates from left to right and stops at the
  first throw. \<open>ToNumber\<close> is \<open>Number(v)\<close>; an object or an array is converted through
  its string.
\<close>

fun collect :: "(thrown + 'a) list \<Rightarrow> thrown + 'a list" where
  "collect [] = Inr []"
| "collect (x # xs) =
     (case x of
        Inl e \<Rightarrow> Inl e
      | Inr v \<Rightarrow> (case collect xs of Inl e \<Rightarrow> Inl e | Inr vs \<Rightarrow> Inr (v # vs)))"

fun ToString :: "runtime \<Rightarrow> jsval \<Rightarrow> thrown + jsstring" where
  "ToString rt JUndefined = Inr (utf16 ''undefined'')"
| "ToString rt JNull = Inr (utf16 ''null'')"
| "ToString rt (JBool b) = Inr (if b then utf16 ''true'' else utf16 ''false'')"
| "ToString rt (JNum n) = Inr (numberToString rt n)"
| "ToString rt (JStr s) = Inr s"
| "ToString rt (JArr xs) =
     (case collect (map (\<lambda>x. if x = JUndefined \<or> x = JNull then Inr [] else ToString rt x) xs) of
        Inl e \<Rightarrow> Inl e
      | Inr strings \<Rightarrow> Inr (join (utf16 '','') strings))"
| "ToString rt (JObj kvs) =
     (if map_of kvs (utf16 ''toString'') = None then Inr (utf16 ''[object Object]'')
      else Inl TypeError)"

fun ToNumber :: "runtime \<Rightarrow> jsval \<Rightarrow> thrown + jsnum" where
  "ToNumber rt JUndefined = Inr NaN"
| "ToNumber rt JNull = Inr (Finite 0)"
| "ToNumber rt (JBool b) = Inr (Finite (if b then 1 else 0))"
| "ToNumber rt (JNum n) = Inr n"
| "ToNumber rt (JStr s) = Inr (StringToNumber rt s)"
| "ToNumber rt (JArr xs) =
     (case ToString rt (JArr xs) of Inl e \<Rightarrow> Inl e | Inr s \<Rightarrow> Inr (StringToNumber rt s))"
| "ToNumber rt (JObj kvs) =
     (case ToString rt (JObj kvs) of Inl e \<Rightarrow> Inl e | Inr s \<Rightarrow> Inr (StringToNumber rt s))"

text \<open>\<open>x < y\<close> on numbers: false when either side is NaN.\<close>

fun num_less :: "jsnum \<Rightarrow> jsnum \<Rightarrow> bool" where
  "num_less (Finite a) (Finite b) = (a < b)"
| "num_less NegInfinity (Finite b) = True"
| "num_less NegInfinity PosInfinity = True"
| "num_less (Finite a) PosInfinity = True"
| "num_less x y = False"

definition isNaN :: "jsnum \<Rightarrow> bool" where
  "isNaN n = (n = NaN)"

text \<open>
  \<open>n * 1000\<close>: exact when \<open>n\<close> is a whole number and the product is at most \<open>2^53\<close>; any
  other finite product is the floating-point one; NaN and the infinities stay.
\<close>

definition times1000 :: "runtime \<Rightarrow> jsnum \<Rightarrow> jsnum" where
  "times1000 rt n =
     (case n of
        Finite q \<Rightarrow> if of_int \<lfloor>q\<rfloor> = q \<and> \<bar>q\<bar> * 1000 \<le> 9007199254740992 then Finite (q * 1000)
                    else Multiply rt q 1000
      | _ \<Rightarrow> n)"

text \<open>
  Strings. \<open>isWhiteSpace\<close> is the white space and the line terminators of the language,
  which \<open>trim\<close> removes at both ends and \<open>\s\<close> matches. \<open>startsWith\<close> and \<open>includes\<close>
  (here \<open>includes_str\<close>) are the string methods. \<open>removeAll pat\<close> is the replacement by
  the empty string of every match of the global regular expression \<open>/pat\n?/g\<close>: the
  literal \<open>pat\<close> with the line feed after it, if there is one.
\<close>

definition isWhiteSpace :: "16 word \<Rightarrow> bool" where
  "isWhiteSpace c =
     (c \<in> set [0x0009, 0x000A, 0x000B, 0x000C, 0x000D, 0x0020, 0x00A0, 0x1680,
                0x2000, 0x2001, 0x2002, 0x2003, 0x2004, 0x2005, 0x2006, 0x2007, 0x2008,
                0x2009, 0x200A, 0x2028, 0x2029, 0x202F, 0x205F, 0x3000, 0xFEFF])"

definition trim :: "jsstring \<Rightarrow> jsstring" where
  "trim s = rev (dropWhile isWhiteSpace (rev (dropWhile isWhiteSpace s)))"

definition startsWith :: "jsstring \<Rightarrow> jsstring \<Rightarrow> bool" where
  "startsWith s p = prefix p s"

fun includes_str :: "jsstring \<Rightarrow> jsstring \<Rightarrow> bool" where
  "includes_str [] p = (p = [])"
| "includes_str (c # cs) p = (prefix p (c # cs) \<or> includes_str cs p)"

fun dropNewline :: "jsstring \<Rightarrow> jsstring" where
  "dropNewline [] = []"
| "dropNewline (c # cs) = (if c = 0x0A then cs else c # cs)"

function removeAll :: "jsstring \<Rightarrow> jsstring \<Rightarrow> jsstring" where
  "removeAll pat [] = []"
| "removeAll pat (c # cs) =
     (if pat \<noteq> [] \<and> prefix pat (c # cs)
      then removeAll pat (dropNewline (drop (length pat) (c # cs)))
      else c # removeAll pat cs)"
  by pat_completeness auto
termination
proof (relation "measure (\<lambda>(pat, s). length s)")
  fix pat :: jsstring and c cs
  assume "pat \<noteq> [] \<and> prefix pat (c # cs)"
  then have a: "length (drop (length pat) (c # cs)) < length (c # cs)"
    by (cases pat) auto
  have b: "length (dropNewline (drop (length pat) (c # cs))) \<le> length (drop (length pat) (c # cs))"
    by (cases "drop (length pat) (c # cs)") auto
  from a b have "length (dropNewline (drop (length pat) (c # cs))) < length (c # cs)"
    by (rule le_less_trans [rotated])
  then show "((pat, dropNewline (drop (length pat) (c # cs))), pat, c # cs)
      \<in> measure (\<lambda>(pat, s). length s)"
    by simp
qed auto


text \<open>
  A value as it reads back from its JSON text (\<open>JSON.parse(JSON.stringify(v))\<close>): a
  number that is not finite, and \<open>undefined\<close> in an array, become \<open>null\<close>; a property
  that is \<open>undefined\<close> is left out.
\<close>

fun jsonClean :: "jsval \<Rightarrow> jsval"
  and jsonCleanElements :: "jsval list \<Rightarrow> jsval list"
  and jsonCleanProperties :: "(jsstring \<times> jsval) list \<Rightarrow> (jsstring \<times> jsval) list" where
  "jsonClean JUndefined = JNull"
| "jsonClean JNull = JNull"
| "jsonClean (JBool b) = JBool b"
| "jsonClean (JNum n) = (case n of Finite q \<Rightarrow> JNum (Finite q) | _ \<Rightarrow> JNull)"
| "jsonClean (JStr s) = JStr s"
| "jsonClean (JArr xs) = JArr (jsonCleanElements xs)"
| "jsonClean (JObj kvs) = JObj (jsonCleanProperties kvs)"
| "jsonCleanElements [] = []"
| "jsonCleanElements (x # xs) = jsonClean x # jsonCleanElements xs"
| "jsonCleanProperties [] = []"
| "jsonCleanProperties (kv # kvs) =
     (if snd kv = JUndefined then jsonCleanProperties kvs
      else (fst kv, jsonClean (snd kv)) # jsonCleanProperties kvs)"

section \<open>The data model (types.ts)\<close>

datatype source =
    remoteok | weworkremotely | web3career | hnhiring
  | jobicy | cryptojobslist | workingnomads | remotive

text \<open>
  \<open>Job\<close> and \<open>AnalyzedJob extends Job\<close>. The field \<open>id\<close> is named \<open>job_id\<close> here
  (\<open>id\<close> is the identity function of HOL); every adapter builds it with a template
  literal, so it is a string. The interface declares \<open>title\<close>, \<open>company\<close>,
  \<open>description\<close> and \<open>url\<close> as strings; at run time they hold whatever the feed
  delivered, so the model keeps them as JavaScript values.
\<close>

record Job =
  job_id :: jsstring
  title :: jsval
  company :: jsval
  description :: jsval
  url :: jsval
  postedAt :: jsdate
  source :: source

record AnalyzedJob = Job +
  score :: jsnum
  reason :: jsstring

section \<open>The time filter (scraper.ts, filterByTime)\<close>

text \<open>
  \<open>now\<close> is the time value of \<open>new Date()\<close> taken at the call. \<open>hoursThreshold\<close> is a
  whole number of hours (the configured value is 24), so the product with 3600000 is
  exact. A comparison with NaN is false: a job with an invalid date is dropped.
\<close>

definition filterByTime :: "int \<Rightarrow> ('a Job_scheme) list \<Rightarrow> int \<Rightarrow> ('a Job_scheme) list" where
  "filterByTime now jobs hoursThreshold =
     (let threshold = hoursThreshold * 60 * 60 * 1000 in
      filter (\<lambda>job.
        case getTime (postedAt job) of
          None \<Rightarrow> False
        | Some t \<Rightarrow> (let timeDiff = now - t in timeDiff \<ge> 0 \<and> timeDiff \<le> threshold)) jobs)"

definition sample_job :: "string \<Rightarrow> jsdate \<Rightarrow> Job" where
  "sample_job i d =
     \<lparr> job_id = utf16 i, title = JStr (utf16 (''Job '' @ i)), company = JStr (utf16 ''Tech Corp''),
       description = JStr (utf16 ''Desc''), url = JStr (utf16 ''https://example.com/1''),
       postedAt = d, source = remoteok \<rparr>"

section \<open>The scoring client (agent.ts)\<close>

text \<open>
  \<open>stripFences\<close> is the first statement block of \<open>parseAIResponse\<close>, applied to the
  trimmed response. \<open>validateParsed\<close> is the body of its \<open>try\<close> after \<open>JSON.parse\<close>, in
  the order of the source: \<open>Number(parsed.score)\<close>, then \<open>String(parsed.reason || '')\<close>,
  each of which can throw, then the two checks. \<open>parseAIResponse\<close> wraps whatever the
  \<open>try\<close> throws in an error of its own. The result is the pair \<open>(score, reason)\<close>.
\<close>

definition stripFences :: "jsstring \<Rightarrow> jsstring" where
  "stripFences cleaned =
     (if startsWith cleaned (utf16 ''```json'')
      then removeAll (utf16 ''```'') (removeAll (utf16 ''```json'') cleaned)
      else if startsWith cleaned (utf16 ''```'') then removeAll (utf16 ''```'') cleaned
      else cleaned)"

definition validateParsed :: "runtime \<Rightarrow> jsval \<Rightarrow> thrown + jsnum \<times> jsstring" where
  "validateParsed rt parsed =
     (case getProp parsed (utf16 ''score'') of
        Inl e \<Rightarrow> Inl e
      | Inr score_field \<Rightarrow>
          (case ToNumber rt score_field of
             Inl e \<Rightarrow> Inl e
           | Inr the_score \<Rightarrow>
               (case getProp parsed (utf16 ''reason'') of
                  Inl e \<Rightarrow> Inl e
                | Inr reason_field \<Rightarrow>
                    (case ToString rt (or_else reason_field (JStr [])) of
                       Inl e \<Rightarrow> Inl e
                     | Inr the_reason \<Rightarrow>
                         if isNaN the_score \<or> num_less the_score (Finite 1)
                              \<or> num_less (Finite 10) the_score
                         then Inl (InvalidScore the_score)
                         else if the_reason = [] \<or> length (trim the_reason) = 0
                         then Inl MissingReason
                         else Inr (the_score, trim the_reason)))))"

definition parseAIResponse :: "runtime \<Rightarrow> jsstring \<Rightarrow> thrown + jsnum \<times> jsstring" where
  "parseAIResponse rt response =
     (let cleaned = stripFences (trim response) in
      case (case JSON_parse rt cleaned of
              Inl e \<Rightarrow> Inl e
            | Inr parsed \<Rightarrow> validateParsed rt parsed) of
        Inl error \<Rightarrow> Inl (CannotParseAIResponse error)
      | Inr r \<Rightarrow> Inr r)"

text \<open>
  \<open>buildPrompt\<close> is a template literal. Its fixed text is a parameter, piece by piece
  in the order of the template; what the template interpolates is modelled, in that
  order: the background, the title and the company (each through \<open>ToString\<close>, which can
  throw), and the first 2000 code units of the description with \<open>...\<close> after them when
  it is longer. \<open>job.description.substring\<close> exists only on a string.
\<close>

record PromptText =
  systemPrompt :: jsstring
  intro :: jsstring
  skillsLabel :: jsstring
  skillsSeparator :: jsstring
  locationLabel :: jsstring
  locationEnd :: jsstring
  remoteYes :: jsstring
  remoteNo :: jsstring
  industriesLabel :: jsstring
  industriesSeparator :: jsstring
  jobHeader :: jsstring
  companyLabel :: jsstring
  descriptionLabel :: jsstring
  instructions :: jsstring

record Preferences =
  remoteOnly :: bool
  industries :: "jsstring list"

record UserBackground =
  experience :: jsstring
  skills :: "jsstring list"
  location :: jsstring
  preferences :: Preferences

definition buildPrompt :: "runtime \<Rightarrow> PromptText \<Rightarrow> Job \<Rightarrow> UserBackground \<Rightarrow> thrown + jsstring" where
  "buildPrompt rt txt job background =
     (case ToString rt (title job) of
        Inl e \<Rightarrow> Inl e
      | Inr the_title \<Rightarrow>
          (case ToString rt (company job) of
             Inl e \<Rightarrow> Inl e
           | Inr the_company \<Rightarrow>
               (case description job of
                  JStr d \<Rightarrow>
                    Inr (intro txt @ experience background
                         @ skillsLabel txt @ join (skillsSeparator txt) (skills background)
                         @ locationLabel txt @ location background @ locationEnd txt
                         @ (if remoteOnly (preferences background) then remoteYes txt
                            else remoteNo txt)
                         @ industriesLabel txt
                         @ join (industriesSeparator txt) (industries (preferences background))
                         @ jobHeader txt @ the_title
                         @ companyLabel txt @ the_company
                         @ descriptionLabel txt @ take 2000 d
                         @ (if length d > 2000 then utf16 ''...'' else [])
                         @ instructions txt)
                | _ \<Rightarrow> Inl TypeError)))"

text \<open>
  \<open>analyzeJob\<close>. The configuration is the outcome of \<open>getAIConfig()\<close>, which throws when
  no API key is set. The provider is an input: \<open>reply aiConfig system prompt\<close> is the
  outcome of the HTTP call (a throw, or the body \<open>response.data\<close> for Claude and the
  \<open>completion\<close> object otherwise), so the theorems hold whatever the provider answers.
  \<open>index0\<close> is \<open>v[0]\<close> and \<open>optIndex0\<close> is \<open>v?.[0]\<close>.
\<close>

datatype AIProvider = deepseek | openai | groq | together | claude | custom

record AIConfig =
  provider :: AIProvider
  apiKey :: jsstring
  model :: jsstring

fun optIndex0 :: "jsval \<Rightarrow> jsval" where
  "optIndex0 (JArr (x # xs)) = x"
| "optIndex0 (JStr (c # cs)) = JStr [c]"
| "optIndex0 (JObj kvs) = (case map_of kvs (utf16 ''0'') of Some v \<Rightarrow> v | None \<Rightarrow> JUndefined)"
| "optIndex0 v = JUndefined"

fun index0 :: "jsval \<Rightarrow> thrown + jsval" where
  "index0 JUndefined = Inl TypeError"
| "index0 JNull = Inl TypeError"
| "index0 v = Inr (optIndex0 v)"

definition callClaudeAPI :: "thrown + jsval \<Rightarrow> thrown + jsval" where
  "callClaudeAPI reply =
     (case reply of
        Inl e \<Rightarrow> Inl e
      | Inr data \<Rightarrow>
          (let content = optProp (optIndex0 (optProp data (utf16 ''content''))) (utf16 ''text'') in
           if \<not> truthy content then Inl EmptyClaudeResponse else Inr content))"

definition callOpenAI :: "thrown + jsval \<Rightarrow> thrown + jsval" where
  "callOpenAI reply =
     (case reply of
        Inl e \<Rightarrow> Inl e
      | Inr completion \<Rightarrow>
          (case getProp completion (utf16 ''choices'') of
             Inl e \<Rightarrow> Inl e
           | Inr choices \<Rightarrow>
               (case index0 choices of
                  Inl e \<Rightarrow> Inl e
                | Inr choice \<Rightarrow>
                    (let content = or_else (optProp (optProp choice (utf16 ''message''))
                                              (utf16 ''content'')) (JStr [])
                     in if \<not> truthy content then Inl EmptyAIResponse else Inr content))))"

text \<open>\<open>parseAIResponse(content)\<close> starts with \<open>content.trim()\<close>: only a string has it.\<close>

definition parseContent :: "runtime \<Rightarrow> jsval \<Rightarrow> thrown + jsnum \<times> jsstring" where
  "parseContent rt content =
     (case content of JStr response \<Rightarrow> parseAIResponse rt response | _ \<Rightarrow> Inl TypeError)"

definition analyzeJob ::
  "runtime \<Rightarrow> PromptText \<Rightarrow> thrown + AIConfig
     \<Rightarrow> (AIConfig \<Rightarrow> jsstring \<Rightarrow> jsstring \<Rightarrow> thrown + jsval)
     \<Rightarrow> Job \<Rightarrow> UserBackground \<Rightarrow> thrown + AnalyzedJob" where
  "analyzeJob rt txt getAIConfig reply job background =
     (case getAIConfig of
        Inl e \<Rightarrow> Inl e
      | Inr aiConfig \<Rightarrow>
          (case buildPrompt rt txt job background of
             Inl e \<Rightarrow> Inl e
           | Inr prompt \<Rightarrow>
               (case (if provider aiConfig = claude
                      then callClaudeAPI (reply aiConfig (systemPrompt txt) prompt)
                      else callOpenAI (reply aiConfig (systemPrompt txt) prompt)) of
                  Inl error \<Rightarrow> Inl error
                | Inr content \<Rightarrow>
                    (case parseContent rt content of
                       Inl error \<Rightarrow> Inl error
                     | Inr (the_score, the_reason) \<Rightarrow>
                         Inr \<lparr> job_id = job_id job, title = title job, company = company job,
                               description = description job, url = url job,
                               postedAt = postedAt job, source = source job,
                               score = the_score, reason = the_reason \<rparr>))))"

section \<open>The normalizer and the feed adapter (scraper.ts)\<close>

text \<open>
  \<open>hashString\<close>. \<open>charCodeAt\<close> reads a code unit. The loop keeps \<open>hash\<close> a 32-bit
  integer: \<open>hash << 5\<close> is a 32-bit shift, the sum \<open>(hash << 5) - hash + char\<close> is exact
  in a double, and \<open>hash & hash\<close> wraps it to 32 bits again, which is the arithmetic of
  \<open>32 word\<close>. The result is the absolute value of the signed reading, in radix 36.
\<close>

fun hashLoop :: "32 word \<Rightarrow> jsstring \<Rightarrow> 32 word" where
  "hashLoop hash [] = hash"
| "hashLoop hash (c # cs) = hashLoop (push_bit 5 hash - hash + ucast c) cs"

definition hashString :: "jsstring \<Rightarrow> jsstring" where
  "hashString str = toRadix 36 (nat \<bar>sint (hashLoop 0 str)\<bar>)"

text \<open>The id the Jobicy adapter builds for an item, from its link.\<close>

definition jobicy_id :: "jsstring \<Rightarrow> jsstring" where
  "jobicy_id link = utf16 ''jobicy-'' @ hashString link"

text \<open>
  The two regular expressions of the normalizer, each as the function that returns its
  capture group, \<open>None\<close> when there is no match.

  \<open>/\/(\d+)/\<close>: the leftmost slash that is followed by a digit, and the digits after it.

  \<open>/@\s*(.+)$/\<close>: the leftmost \<open>@\<close> from which the rest of the title can be matched.
  \<open>\s*\<close> takes the white space after the \<open>@\<close>; \<open>(.+)$\<close> must then reach the end of the
  title over at least one code unit and no line terminator. When only white space follows
  the \<open>@\<close>, backtracking leaves its last code unit to the group.
\<close>

definition isDigit :: "16 word \<Rightarrow> bool" where
  "isDigit c = (c \<in> set (utf16 ''0123456789''))"

definition isLineTerminator :: "16 word \<Rightarrow> bool" where
  "isLineTerminator c = (c \<in> set [0x000A, 0x000D, 0x2028, 0x2029])"

fun matchNumericSegment :: "jsstring \<Rightarrow> jsstring option" where
  "matchNumericSegment [] = None"
| "matchNumericSegment (c # cs) =
     (if c = 0x2F \<and> takeWhile isDigit cs \<noteq> [] then Some (takeWhile isDigit cs)
      else matchNumericSegment cs)"

fun matchCompany :: "jsstring \<Rightarrow> jsstring option" where
  "matchCompany [] = None"
| "matchCompany (c # cs) =
     (if c = 0x40
      then (let spaces = takeWhile isWhiteSpace cs; rest = dropWhile isWhiteSpace cs in
            if rest \<noteq> []
            then (if list_ex isLineTerminator rest then matchCompany cs else Some rest)
            else if spaces \<noteq> [] \<and> \<not> isLineTerminator (last spaces) then Some [last spaces]
            else matchCompany cs)
      else matchCompany cs)"

text \<open>\<open>extractCompanyFromTitle\<close>: \<open>title.match\<close> exists only on a string.\<close>

definition extractCompanyFromTitle :: "jsval \<Rightarrow> thrown + jsval" where
  "extractCompanyFromTitle title_field =
     (case title_field of
        JStr t \<Rightarrow> Inr (case matchCompany t of Some m \<Rightarrow> JStr (trim m) | None \<Rightarrow> JNull)
      | _ \<Rightarrow> Inl TypeError)"

text \<open>
  Dates. \<open>TimeClip\<close> makes a time value of a number: NaN, the infinities and a value
  beyond \<open>8.64e15\<close> give an invalid date, any other is truncated towards zero.
  \<open>newDate\<close> is \<open>new Date(v)\<close> with one argument: a string is parsed; an array or an
  object is converted to its string first, which can throw, and that string is parsed;
  anything else is converted to a number. On a string \<open>new Date\<close> never throws: what
  cannot be parsed gives an invalid date. \<open>parseDate\<close> wraps \<open>new Date(v)\<close> in a \<open>try\<close>
  whose \<open>catch\<close> returns the current time.
\<close>

definition TimeClip :: "jsnum \<Rightarrow> jsdate" where
  "TimeClip n =
     (case n of
        Finite q \<Rightarrow> if \<bar>q\<bar> > 8640000000000000 then InvalidDate
                    else DateMs (if q \<ge> 0 then \<lfloor>q\<rfloor> else \<lceil>q\<rceil>)
      | _ \<Rightarrow> InvalidDate)"

definition parsedDate :: "runtime \<Rightarrow> jsstring \<Rightarrow> jsdate" where
  "parsedDate rt s = (case Date_parse rt s of None \<Rightarrow> InvalidDate | Some t \<Rightarrow> DateMs t)"

fun newDate :: "runtime \<Rightarrow> jsval \<Rightarrow> thrown + jsdate" where
  "newDate rt (JStr s) = Inr (parsedDate rt s)"
| "newDate rt (JArr xs) =
     (case ToString rt (JArr xs) of Inl e \<Rightarrow> Inl e | Inr s \<Rightarrow> Inr (parsedDate rt s))"
| "newDate rt (JObj kvs) =
     (case ToString rt (JObj kvs) of Inl e \<Rightarrow> Inl e | Inr s \<Rightarrow> Inr (parsedDate rt s))"
| "newDate rt v = (case ToNumber rt v of Inl e \<Rightarrow> Inl e | Inr n \<Rightarrow> Inr (TimeClip n))"

definition parseDate :: "runtime \<Rightarrow> int \<Rightarrow> jsval \<Rightarrow> jsdate" where
  "parseDate rt now dateString =
     (case newDate rt dateString of Inr d \<Rightarrow> d | Inl e \<Rightarrow> DateMs now)"

text \<open>
  \<open>normalizeJob\<close>. \<open>rawJob\<close> is any value (the casts \<open>rawJob as ...\<close> check nothing):
  reading a property of \<open>undefined\<close> or \<open>null\<close> throws, a missing property is
  \<open>undefined\<close>. \<open>now\<close> is the clock, read by \<open>Date.now()\<close> and \<open>new Date()\<close>. A
  template literal \<open>`${v}`\<close> is \<open>ToString\<close> and can throw; the conversions are made in
  the order of the source. The last branch is the \<open>else\<close> of the source: it takes every
  tag that is not one of the first two.
\<close>

definition normalizeJob :: "runtime \<Rightarrow> int \<Rightarrow> jsval \<Rightarrow> source \<Rightarrow> thrown + Job" where
  "normalizeJob rt now rawJob src =
     (if src = remoteok then
        (case getProp rawJob (utf16 ''id'') of
           Inl e \<Rightarrow> Inl e
         | Inr id_field \<Rightarrow>
             (case ToString rt id_field of
                Inl e \<Rightarrow> Inl e
              | Inr id_text \<Rightarrow>
                  (case ToNumber rt (optProp rawJob (utf16 ''epoch'')) of
                     Inl e \<Rightarrow> Inl e
                   | Inr epoch \<Rightarrow>
                       Inr \<lparr> job_id = utf16 ''remoteok-'' @ id_text,
                             title = or_else (optProp rawJob (utf16 ''position''))
                                       (JStr (utf16 ''Untitled'')),
                             company = or_else (optProp rawJob (utf16 ''company''))
                                         (JStr (utf16 ''Unknown'')),
                             description = or_else (optProp rawJob (utf16 ''description''))
                                             (JStr []),
                             url = or_else (optProp rawJob (utf16 ''url''))
                                     (JStr (utf16 ''https://remoteok.com/remote-jobs/'' @ id_text)),
                             postedAt = TimeClip (times1000 rt epoch),
                             source = remoteok \<rparr>)))
      else if src = weworkremotely then
        (case getProp rawJob (utf16 ''link'') of
           Inl e \<Rightarrow> Inl e
         | Inr link_field \<Rightarrow>
             (case link_field of
                JStr link \<Rightarrow>
                  (let urlMatch = matchNumericSegment link;
                       the_id = (case urlMatch of
                                   Some m \<Rightarrow> utf16 ''weworkremotely-'' @ m
                                 | None \<Rightarrow> utf16 ''weworkremotely-''
                                             @ numberToString rt (Finite (of_int now)))
                   in case extractCompanyFromTitle (optProp rawJob (utf16 ''title'')) of
                        Inl e \<Rightarrow> Inl e
                      | Inr extracted \<Rightarrow>
                          Inr \<lparr> job_id = the_id,
                                title = or_else (optProp rawJob (utf16 ''title''))
                                          (JStr (utf16 ''Untitled'')),
                                company = or_else extracted (JStr (utf16 ''Unknown'')),
                                description = or_else (optProp rawJob (utf16 ''description''))
                                                (JStr []),
                                url = JStr link,
                                postedAt = parseDate rt now (optProp rawJob (utf16 ''pubDate'')),
                                source = weworkremotely \<rparr>)
              | _ \<Rightarrow> Inl TypeError))
      else
        (case getProp rawJob (utf16 ''id'') of
           Inl e \<Rightarrow> Inl e
         | Inr id_field \<Rightarrow>
             (case ToString rt id_field of
                Inl e \<Rightarrow> Inl e
              | Inr id_text \<Rightarrow>
                  (case (if truthy (or_else (optProp rawJob (utf16 ''url''))
                                      (optProp rawJob (utf16 ''slug'')))
                         then (case ToString rt (optProp rawJob (utf16 ''slug'')) of
                                 Inl e \<Rightarrow> Inl e
                               | Inr slug \<Rightarrow> Inr (JStr (utf16 ''https://web3.career/'' @ slug)))
                         else Inr (JStr (utf16 ''https://web3.career''))) of
                     Inl e \<Rightarrow> Inl e
                   | Inr the_url \<Rightarrow>
                       Inr \<lparr> job_id = utf16 ''web3career-'' @ id_text,
                             title = or_else (optProp rawJob (utf16 ''title''))
                                       (JStr (utf16 ''Untitled'')),
                             company = or_else (optProp rawJob (utf16 ''company''))
                                         (JStr (utf16 ''Unknown'')),
                             description = or_else (optProp rawJob (utf16 ''description''))
                                             (JStr []),
                             url = the_url,
                             postedAt = parseDate rt now
                                (or_else (or_else (optProp rawJob (utf16 ''published_at''))
                                            (optProp rawJob (utf16 ''created_at'')))
                                   (JStr (toISOString rt now))),
                             source = web3career \<rparr>))))"

text \<open>The tag as the string that the ids start with.\<close>

fun source_name :: "source \<Rightarrow> jsstring" where
  "source_name remoteok = utf16 ''remoteok''"
| "source_name weworkremotely = utf16 ''weworkremotely''"
| "source_name web3career = utf16 ''web3career''"
| "source_name hnhiring = utf16 ''hnhiring''"
| "source_name jobicy = utf16 ''jobicy''"
| "source_name cryptojobslist = utf16 ''cryptojobslist''"
| "source_name workingnomads = utf16 ''workingnomads''"
| "source_name remotive = utf16 ''remotive''"

text \<open>
  \<open>fetchWWRJobs\<close>. \<open>response\<close> is the outcome of \<open>axios.get\<close>: a throw, or the body
  \<open>response.data\<close>. \<open>collectWWR\<close> is the loop over the items, with its guard and its
  inner \<open>try\<close>, whose \<open>catch\<close> renders the title of the item for the console and so can
  throw itself. The outer \<open>catch\<close> returns the empty list for an \<open>Error\<close> whose message
  includes \<open>XML\<close> and throws every other value again.
\<close>

fun collectWWR :: "runtime \<Rightarrow> int \<Rightarrow> jsval list \<Rightarrow> thrown + Job list" where
  "collectWWR rt now [] = Inr []"
| "collectWWR rt now (item # items) =
     (if \<not> truthy item \<or> \<not> truthy (optProp item (utf16 ''title''))
         \<or> \<not> truthy (optProp item (utf16 ''link''))
      then collectWWR rt now items
      else (case normalizeJob rt now item weworkremotely of
              Inr normalized \<Rightarrow>
                (case collectWWR rt now items of
                   Inl e \<Rightarrow> Inl e
                 | Inr jobs \<Rightarrow> Inr (normalized # jobs))
            | Inl error \<Rightarrow>
                (case ToString rt (optProp item (utf16 ''title'')) of
                   Inl e \<Rightarrow> Inl e
                 | Inr warned \<Rightarrow> collectWWR rt now items)))"

definition parseFeed :: "runtime \<Rightarrow> int \<Rightarrow> thrown + jsval \<Rightarrow> thrown + Job list" where
  "parseFeed rt now response =
     (case response of
        Inl e \<Rightarrow> Inl e
      | Inr data \<Rightarrow>
          (case XML_parse rt data of
             Inl e \<Rightarrow> Inl e
           | Inr parsed \<Rightarrow>
               (case getProp parsed (utf16 ''rss'') of
                  Inl e \<Rightarrow> Inl e
                | Inr rss \<Rightarrow>
                    (let rawItems = optProp (optProp rss (utf16 ''channel'')) (utf16 ''item'');
                         items = (if truthy rawItems
                                  then (case rawItems of JArr xs \<Rightarrow> xs | _ \<Rightarrow> [rawItems])
                                  else [])
                     in collectWWR rt now items))))"

definition fetchWWRJobs :: "runtime \<Rightarrow> int \<Rightarrow> thrown + jsval \<Rightarrow> thrown + Job list" where
  "fetchWWRJobs rt now response =
     (case parseFeed rt now response of
        Inr jobs \<Rightarrow> Inr jobs
      | Inl error \<Rightarrow>
          (case error of
             Error message \<Rightarrow> if includes_str message (utf16 ''XML'') then Inr [] else Inl error
           | _ \<Rightarrow> Inl error))"

definition wwr_item :: "string \<Rightarrow> string \<Rightarrow> jsval" where
  "wwr_item link pubDate =
     JObj [(utf16 ''title'', JStr (utf16 ''Senior Developer @ Acme'')),
           (utf16 ''link'', JStr (utf16 link)),
           (utf16 ''description'', JStr (utf16 ''TypeScript expert needed'')),
           (utf16 ''pubDate'', JStr (utf16 pubDate))]"

section \<open>The dedup store (storage.ts)\<close>

text \<open>
  The store is one JSON file in a data directory. The disk is in one of four states: the
  directory is missing; the directory exists without the file; the file exists but
  reading it or parsing it as JSON throws; or the file holds the JSON text of a value,
  which is what \<open>JSON.parse\<close> returns for it. The program writes a \<open>ProcessedJobs\<close>
  object \<open>{jobIds, lastUpdated}\<close>, but the file may hold any value, and
  \<open>loadProcessedJobs\<close> returns \<open>data.jobIds || []\<close> unchecked.

  \<open>mkdirSync\<close> and \<open>writeFileSync\<close> can fail: \<open>io\<close> says with what. A write into a
  missing directory fails; a write that fails is taken to leave the disk as it was.
\<close>

datatype disk = NoDirectory | NoFile | Unreadable | Stored jsval

record io =
  mkdir_fault :: "thrown option"
  write_fault :: "thrown option"

fun loadProcessedJobs :: "disk \<Rightarrow> jsval" where
  "loadProcessedJobs NoDirectory = JArr []"
| "loadProcessedJobs NoFile = JArr []"
| "loadProcessedJobs Unreadable = JArr []"
| "loadProcessedJobs (Stored data) =
     (case getProp data (utf16 ''jobIds'') of
        Inl error \<Rightarrow> JArr []
      | Inr ids \<Rightarrow> or_else ids (JArr []))"

text \<open>
  \<open>includes_val\<close> is the call \<open>existingIds.includes(jobId)\<close>: a search for an element
  in an array, for a substring in a string, and a \<open>TypeError\<close> on any other value, which
  has no such method. \<open>spread\<close> is \<open>[...existingIds]\<close>: the elements of an array, the
  code points of a string (a surrogate pair is one of them).
\<close>

fun includes_val :: "jsval \<Rightarrow> jsstring \<Rightarrow> thrown + bool" where
  "includes_val (JArr xs) jobId = Inr (JStr jobId \<in> set xs)"
| "includes_val (JStr s) jobId = Inr (includes_str s jobId)"
| "includes_val v jobId = Inl TypeError"

fun codePoints :: "jsstring \<Rightarrow> jsstring list" where
  "codePoints [] = []"
| "codePoints [c] = [[c]]"
| "codePoints (c # d # cs) =
     (if 0xD800 \<le> c \<and> c \<le> 0xDBFF \<and> 0xDC00 \<le> d \<and> d \<le> 0xDFFF then [c, d] # codePoints cs
      else [c] # codePoints (d # cs))"

fun spread :: "jsval \<Rightarrow> thrown + jsval list" where
  "spread (JArr xs) = Inr xs"
| "spread (JStr s) = Inr (map JStr (codePoints s))"
| "spread v = Inl TypeError"

text \<open>
  \<open>mkdir\<close> is the shared prologue \<open>if (!existsSync(dir)) mkdirSync(dir, {recursive: true})\<close>.
  \<open>writeFile\<close> is \<open>writeFileSync(storagePath, JSON.stringify(data, null, 2))\<close>. The
  operations that write return the thrown value, if any, and the disk they leave.
\<close>

definition mkdir :: "io \<Rightarrow> disk \<Rightarrow> thrown option \<times> disk" where
  "mkdir io d =
     (if d = NoDirectory
      then (case mkdir_fault io of Some e \<Rightarrow> (Some e, NoDirectory) | None \<Rightarrow> (None, NoFile))
      else (None, d))"

definition writeFile :: "io \<Rightarrow> jsval \<Rightarrow> disk \<Rightarrow> thrown option \<times> disk" where
  "writeFile io data d =
     (if d = NoDirectory then (Some (Error (utf16 ''ENOENT: no such file or directory'')), d)
      else (case write_fault io of
              Some e \<Rightarrow> (Some e, d)
            | None \<Rightarrow> (None, Stored (jsonClean data))))"

definition saveProcessedJob ::
  "runtime \<Rightarrow> io \<Rightarrow> int \<Rightarrow> jsstring \<Rightarrow> disk \<Rightarrow> thrown option \<times> disk" where
  "saveProcessedJob rt io now jobId d =
     (case mkdir io d of
        (Some e, d1) \<Rightarrow> (Some e, d1)
      | (None, d1) \<Rightarrow>
          (let existingIds = loadProcessedJobs d1 in
           case includes_val existingIds jobId of
             Inl e \<Rightarrow> (Some e, d1)
           | Inr found \<Rightarrow>
               if found then (None, d1)
               else (case spread existingIds of
                       Inl e \<Rightarrow> (Some e, d1)
                     | Inr ids \<Rightarrow>
                         writeFile io
                           (JObj [(utf16 ''jobIds'', JArr (ids @ [JStr jobId])),
                                  (utf16 ''lastUpdated'', JStr (toISOString rt now))]) d1)))"

definition isJobProcessed :: "jsstring \<Rightarrow> disk \<Rightarrow> thrown + bool" where
  "isJobProcessed jobId d = includes_val (loadProcessedJobs d) jobId"

definition clearProcessedJobs :: "runtime \<Rightarrow> io \<Rightarrow> int \<Rightarrow> disk \<Rightarrow> thrown option \<times> disk" where
  "clearProcessedJobs rt io now d =
     (case mkdir io d of
        (Some e, d1) \<Rightarrow> (Some e, d1)
      | (None, d1) \<Rightarrow>
          writeFile io (JObj [(utf16 ''jobIds'', JArr []),
                              (utf16 ''lastUpdated'', JStr (toISOString rt now))]) d1)"

definition io_ok :: io where
  "io_ok = \<lparr> mkdir_fault = None, write_fault = None \<rparr>"

section \<open>The scoring stage of the orchestrator (index.ts, processJobs, step 4)\<close>

text \<open>
  The loop over \<open>newJobs\<close>. Its state is \<open>analyzedJobs\<close>, the jobs for which
  \<open>analyzeJob\<close> has been called so far, and the disk. \<open>analyze\<close> stands for
  \<open>analyzeJob\<close> with the default background. The \<open>try\<close> first announces the job on the
  console, rendering its title in a template literal, which can throw; then it calls
  \<open>analyzeJob\<close> and \<open>saveProcessedJob\<close>. A throw inside the \<open>try\<close> runs the \<open>catch\<close>,
  which renders the title again and then saves the id; a throw from there leaves the
  loop. The result is the thrown value, if any, and the state the loop was left in. The
  clock and the faults are those of the run.
\<close>

type_synonym scoring = "AnalyzedJob list \<times> Job list \<times> disk"

fun scoreJobs ::
  "runtime \<Rightarrow> io \<Rightarrow> int \<Rightarrow> (Job \<Rightarrow> thrown + AnalyzedJob) \<Rightarrow> Job list \<Rightarrow> scoring
     \<Rightarrow> thrown option \<times> scoring" where
  "scoreJobs rt io now analyze [] st = (None, st)"
| "scoreJobs rt io now analyze (job # rest) (analyzedJobs, attempted, d) =
     (case ToString rt (title job) of
        Inl e \<Rightarrow> (Some e, (analyzedJobs, attempted, d))
      | Inr announced \<Rightarrow>
          (case analyze job of
             Inr analyzed \<Rightarrow>
               (case saveProcessedJob rt io now (job_id job) d of
                  (None, d1) \<Rightarrow>
                    scoreJobs rt io now analyze rest
                      (analyzedJobs @ [analyzed], attempted @ [job], d1)
                | (Some e, d1) \<Rightarrow>
                    (case saveProcessedJob rt io now (job_id job) d1 of
                       (None, d2) \<Rightarrow>
                         scoreJobs rt io now analyze rest
                           (analyzedJobs @ [analyzed], attempted @ [job], d2)
                     | (Some e2, d2) \<Rightarrow>
                         (Some e2, (analyzedJobs @ [analyzed], attempted @ [job], d2))))
           | Inl e \<Rightarrow>
               (case saveProcessedJob rt io now (job_id job) d of
                  (None, d1) \<Rightarrow>
                    scoreJobs rt io now analyze rest (analyzedJobs, attempted @ [job], d1)
                | (Some e2, d1) \<Rightarrow> (Some e2, (analyzedJobs, attempted @ [job], d1)))))"

text \<open>The analyses that succeed, in order: what a run that attempts every job collects.\<close>

fun successes :: "(Job \<Rightarrow> thrown + AnalyzedJob) \<Rightarrow> Job list \<Rightarrow> AnalyzedJob list" where
  "successes analyze [] = []"
| "successes analyze (job # rest) =
     (case analyze job of Inr analyzed \<Rightarrow> analyzed # successes analyze rest
      | Inl e \<Rightarrow> successes analyze rest)"

section \<open>Sample data\<close>

text \<open>
  A run time for the worked examples. Its \<open>JSON.parse\<close> knows the texts of the examples
  and what \<open>JSON.parse\<close> returns on them, and rejects every other text; its other
  conversions know the strings the examples use. Its XML parser is the one the adapter
  configures, which does not validate: on the body \<open>invalid xml\<close>, which has no tag, it
  returns the empty object, and on the sample feed the object of its one item; the
  examples give it no other body. The sample prompt text is an English rendering of the
  template.
\<close>

definition sample_json :: "(jsstring \<times> jsval) list" where
  "sample_json =
     [(utf16 ''{\"score\": 8, \"reason\": \"x\"}'',
         JObj [(utf16 ''score'', JNum (Finite 8)), (utf16 ''reason'', JStr (utf16 ''x''))]),
      (utf16 ''{\"score\": 9, \"reason\": \"Great match\"}'' @ [0x0A],
         JObj [(utf16 ''score'', JNum (Finite 9)),
               (utf16 ''reason'', JStr (utf16 ''Great match''))]),
      (utf16 ''{\"score\": 15, \"reason\": \"test\"}'',
         JObj [(utf16 ''score'', JNum (Finite 15)), (utf16 ''reason'', JStr (utf16 ''test''))]),
      (utf16 ''{\"score\": 7.5, \"reason\": \"ok\"}'',
         JObj [(utf16 ''score'', JNum (Finite (15 / 2))), (utf16 ''reason'', JStr (utf16 ''ok''))]),
      (utf16 ''{\"score\": 8, \"reason\": \"'' @ [0x3000, 0x5F88, 0x597D, 0x0020] @ utf16 ''\"}'',
         JObj [(utf16 ''score'', JNum (Finite 8)),
               (utf16 ''reason'', JStr [0x3000, 0x5F88, 0x597D, 0x0020])]),
      (utf16 ''{\"score\": 8, \"reason\": {\"toString\": 1}}'',
         JObj [(utf16 ''score'', JNum (Finite 8)),
               (utf16 ''reason'', JObj [(utf16 ''toString'', JNum (Finite 1))])])]"

definition sample_feed :: jsstring where
  "sample_feed = utf16 (''<rss><channel><item><title>Senior Developer @ Acme</title>''
     @ ''<link>https://weworkremotely.com/jobs/123</link>''
     @ ''<pubDate>1970-01-02T00:00:00.000Z</pubDate></item></channel></rss>'')"

definition sample_xml :: "(jsval \<times> jsval) list" where
  "sample_xml =
     [(JStr (utf16 ''invalid xml''), JObj []),
      (JStr sample_feed,
         JObj [(utf16 ''rss'', JObj [(utf16 ''channel'', JObj [(utf16 ''item'',
           JObj [(utf16 ''title'', JStr (utf16 ''Senior Developer @ Acme'')),
                 (utf16 ''link'', JStr (utf16 ''https://weworkremotely.com/jobs/123'')),
                 (utf16 ''pubDate'', JStr (utf16 ''1970-01-02T00:00:00.000Z''))])])])])]"

definition sample_runtime :: runtime where
  "sample_runtime =
     \<lparr> JSON_parse = (\<lambda>text. case map_of sample_json text of
                                Some v \<Rightarrow> Inr v
                              | None \<Rightarrow> Inl (Error (utf16 ''SyntaxError: Unexpected token''))),
       StringToNumber = (\<lambda>s. if s = utf16 ''8'' then Finite 8 else NaN),
       NumberToString = (\<lambda>q. if q = 15 / 2 then utf16 ''7.5'' else []),
       Multiply = (\<lambda>a b. if a = 87 / 20 \<and> b = 1000 then Finite 4350 else NaN),
       Date_parse = (\<lambda>s. if s = utf16 ''1970-01-02T00:00:00.000Z'' then Some 86400000 else None),
       toISOString = (\<lambda>t. utf16 ''1970-01-02T00:00:00.000Z''),
       XML_parse = (\<lambda>data. case map_of sample_xml data of
                               Some v \<Rightarrow> Inr v
                             | None \<Rightarrow> Inr (JObj [])) \<rparr>"

definition sample_text :: PromptText where
  "sample_text =
     \<lparr> systemPrompt = utf16 ''You are a recruiting expert.'',
       intro = utf16 ''Rate the match. Candidate: '',
       skillsLabel = utf16 ''; skills: '', skillsSeparator = utf16 '', '',
       locationLabel = utf16 ''; based in '', locationEnd = utf16 '', '',
       remoteYes = utf16 ''remote only'', remoteNo = utf16 ''remote or local'',
       industriesLabel = utf16 ''; interested in '', industriesSeparator = utf16 '' or '',
       jobHeader = utf16 ''. Job: '', companyLabel = utf16 '' at '',
       descriptionLabel = utf16 '': '',
       instructions = utf16 ''. Return JSON with score and reason.'' \<rparr>"

definition sample_background :: UserBackground where
  "sample_background =
     \<lparr> experience = utf16 ''3 years front end'', skills = [utf16 ''React'', utf16 ''TypeScript''],
       location = utf16 ''China'',
       preferences = \<lparr> remoteOnly = True, industries = [utf16 ''AI'', utf16 ''Web3''] \<rparr> \<rparr>"

definition sample_config :: AIConfig where
  "sample_config =
     \<lparr> provider = deepseek, apiKey = utf16 ''test-key'', model = utf16 ''deepseek-chat'' \<rparr>"

definition openai_reply :: "string \<Rightarrow> jsval" where
  "openai_reply content =
     JObj [(utf16 ''choices'',
            JArr [JObj [(utf16 ''message'', JObj [(utf16 ''content'', JStr (utf16 content))])]])]"

text \<open>
  Two providers for the examples: one that fails on the prompt for the job titled
  \<open>Job 1\<close> and rates every other job 8, and one that always answers the same.
\<close>

definition sample_reply :: "AIConfig \<Rightarrow> jsstring \<Rightarrow> jsstring \<Rightarrow> thrown + jsval" where
  "sample_reply aiConfig system prompt =
     (if includes_str prompt (utf16 ''Job 1'') then Inl (Error (utf16 ''API Error''))
      else Inr (openai_reply ''{\"score\": 8, \"reason\": \"x\"}''))"

definition constant_reply :: "jsval \<Rightarrow> AIConfig \<Rightarrow> jsstring \<Rightarrow> jsstring \<Rightarrow> thrown + jsval" where
  "constant_reply v aiConfig system prompt = Inr v"

definition sample_analyze :: "Job \<Rightarrow> thrown + AnalyzedJob" where
  "sample_analyze job =
     analyzeJob sample_runtime sample_text (Inr sample_config) sample_reply job sample_background"

section \<open>Properties of the time filter\<close>




text \<open>
  C10. The output of \<open>filterByTime\<close> is an order-preserving sublist of its input: it is
  a subsequence of the input (elements unmodified, relative order kept), so every output
  element is an input element and none occurs more often than in the input.
\<close>

theorem filterByTime_sublist:
  "subseq (filterByTime now jobs h) jobs
   \<and> set (filterByTime now jobs h) \<subseteq> set jobs
   \<and> count_list (filterByTime now jobs h) job \<le> count_list jobs job"
proof -
  have "count_list (filter P xs) x \<le> count_list xs x" for P and xs :: "'b list" and x
    by (induction xs) auto
  then show ?thesis
    by (simp add: filterByTime_def Let_def)
qed

section \<open>Properties of the scoring client\<close>









lemma in_range_iff:
  "(\<not> (isNaN n \<or> num_less n (Finite 1) \<or> num_less (Finite 10) n))
     = (\<exists>q. n = Finite q \<and> 1 \<le> q \<and> q \<le> 10)"
  by (cases n) (auto simp add: isNaN_def)



lemma validateParsed_result:
  assumes "validateParsed rt parsed = Inr (n, r)"
  shows "(\<exists>q. n = Finite q \<and> 1 \<le> q \<and> q \<le> 10) \<and> r \<noteq> []"
proof -
  from assms have ok: "\<not> (isNaN n \<or> num_less n (Finite 1) \<or> num_less (Finite 10) n)"
    and "r \<noteq> []"
    by (auto simp add: validateParsed_def simp del: ToNumber.simps ToString.simps
        split: sum.splits if_splits)
  then show ?thesis using in_range_iff [of n] by simp
qed

lemma parseAIResponse_result:
  assumes "parseAIResponse rt response = Inr (n, r)"
  shows "(\<exists>q. n = Finite q \<and> 1 \<le> q \<and> q \<le> 10) \<and> r \<noteq> []"
proof -
  from assms obtain parsed where "validateParsed rt parsed = Inr (n, r)"
    by (auto simp add: parseAIResponse_def Let_def split: sum.splits)
  then show ?thesis by (rule validateParsed_result)
qed



lemma parseContent_result:
  assumes "parseContent rt content = Inr (n, r)"
  shows "(\<exists>q. n = Finite q \<and> 1 \<le> q \<and> q \<le> 10) \<and> r \<noteq> []"
  using assms parseAIResponse_result [of rt _ n r]
  by (cases content) (simp_all add: parseContent_def)

lemma not_integer_7_5: "(15 / 2 :: rat) \<notin> \<int>"
proof
  assume "(15 / 2 :: rat) \<in> \<int>"
  then obtain k :: int where "(15 / 2 :: rat) = of_int k"
    by (auto elim: Ints_cases)
  then have "(15 :: rat) = of_int (2 * k)" by simp
  then have "(15 :: int) = 2 * k" by (metis of_int_eq_iff of_int_numeral)
  then show False by presburger
qed

text \<open>
  C9, as the code has it. For every job and background, whenever \<open>analyzeJob\<close> returns, the
  record it returns has the \<open>Job\<close> fields of the input job unchanged, a score that is a
  number \<open>q\<close> with \<open>1 \<le> q \<le> 10\<close> (not necessarily a whole number), and a reason that is
  not empty. A result is either a throw or the whole record: there is no record with a
  score and no reason.
\<close>

theorem analyzeJob_result:
  "analyzeJob rt txt getAIConfig reply job background = Inr analyzed \<longrightarrow>
     Job.truncate analyzed = job
     \<and> job_id analyzed = job_id job \<and> title analyzed = title job
     \<and> company analyzed = company job \<and> description analyzed = description job
     \<and> url analyzed = url job \<and> postedAt analyzed = postedAt job
     \<and> source analyzed = source job
     \<and> (\<exists>q. score analyzed = Finite q \<and> 1 \<le> q \<and> q \<le> 10)
     \<and> reason analyzed \<noteq> []"
proof
  assume a: "analyzeJob rt txt getAIConfig reply job background = Inr analyzed"
  then obtain content n r where
    p: "parseContent rt content = Inr (n, r)"
    and r: "analyzed = \<lparr> job_id = job_id job, title = title job, company = company job,
                          description = description job, url = url job,
                          postedAt = postedAt job, source = source job,
                          score = n, reason = r \<rparr>"
    by (auto simp add: analyzeJob_def split: sum.splits prod.splits)
  from parseContent_result [OF p] r
  show "Job.truncate analyzed = job
     \<and> job_id analyzed = job_id job \<and> title analyzed = title job
     \<and> company analyzed = company job \<and> description analyzed = description job
     \<and> url analyzed = url job \<and> postedAt analyzed = postedAt job
     \<and> source analyzed = source job
     \<and> (\<exists>q. score analyzed = Finite q \<and> 1 \<le> q \<and> q \<le> 10)
     \<and> reason analyzed \<noteq> []"
    by (simp add: Job.truncate_def)
qed

lemma analyzeJob_sample:
  "analyzeJob sample_runtime sample_text (Inr sample_config)
       (constant_reply (openai_reply ''{\"score\": 7.5, \"reason\": \"ok\"}''))
       (sample_job ''1'' (DateMs 5)) sample_background
     = Inr (Job.extend (sample_job ''1'' (DateMs 5))
              (AnalyzedJob.fields (Finite (15 / 2)) (utf16 ''ok'')))"
  by (simp add: analyzeJob_def buildPrompt_def constant_reply_def sample_job_def sample_config_def
      callOpenAI_def openai_reply_def or_else_def parseContent_def parseAIResponse_def
      stripFences_def trim_def isWhiteSpace_def startsWith_def sample_runtime_def sample_json_def
      validateParsed_def isNaN_def Job.extend_def AnalyzedJob.fields_def utf16_def)

theorem analyzeJob_result_witness:
  "analyzeJob sample_runtime sample_text (Inr sample_config)
       (constant_reply (openai_reply ''{\"score\": 7.5, \"reason\": \"ok\"}''))
       (sample_job ''1'' (DateMs 5)) sample_background
     = Inr (Job.extend (sample_job ''1'' (DateMs 5))
              (AnalyzedJob.fields (Finite (15 / 2)) (utf16 ''ok'')))
   \<and> Job.truncate (Job.extend (sample_job ''1'' (DateMs 5))
         (AnalyzedJob.fields (Finite (15 / 2)) (utf16 ''ok'')))
       = sample_job ''1'' (DateMs 5)
   \<and> reason (Job.extend (sample_job ''1'' (DateMs 5))
         (AnalyzedJob.fields (Finite (15 / 2)) (utf16 ''ok'')))
       \<noteq> []"
  using analyzeJob_result [THEN mp, OF analyzeJob_sample] analyzeJob_sample by simp

text \<open>
  The claim as the spec words it asks for a whole-number score. The provider's answer
  \<open>{"score": 7.5, "reason": "ok"}\<close> passes every check of \<open>parseAIResponse\<close>, and
  \<open>analyzeJob\<close> returns the job with the score 7.5.
\<close>

theorem analyzeJob_score_not_integer:
  "map_sum id score
     (analyzeJob sample_runtime sample_text (Inr sample_config)
        (constant_reply (openai_reply ''{\"score\": 7.5, \"reason\": \"ok\"}''))
        (sample_job ''1'' (DateMs 5)) sample_background)
     = Inr (Finite (15 / 2))
   \<and> (15 / 2 :: rat) \<notin> \<int>"
  by (simp add: analyzeJob_sample not_integer_7_5 Job.extend_def AnalyzedJob.fields_def)

section \<open>Properties of the normalizer\<close>

lemma toRadix_small: "n < b \<or> b < 2 \<Longrightarrow> toRadix b n = [digit n]"
  by (subst toRadix.simps) simp

lemma toRadix_large:
  "\<not> (n < b \<or> b < 2) \<Longrightarrow> toRadix b n = toRadix b (n div b) @ [digit (n mod b)]"
  by (subst toRadix.simps) simp

text \<open>
  On a string, \<open>new Date\<close> does not throw: it returns an invalid date when the string
  cannot be parsed. So on a string \<open>parseDate\<close> is \<open>new Date\<close>, its \<open>catch\<close> is not
  taken and the clock is not consulted. The \<open>catch\<close> is taken only when the date is an
  object whose conversion to a string throws.
\<close>

lemma parseDate_string: "parseDate rt now (JStr s) = parsedDate rt s"
  by (simp add: parseDate_def)

lemma parseDate_unparseable:
  "Date_parse rt s = None \<Longrightarrow> parseDate rt now (JStr s) = InvalidDate"
  by (simp add: parseDate_def parsedDate_def)

lemma parseDate_missing: "parseDate rt now JUndefined = InvalidDate"
  by (simp add: parseDate_def TimeClip_def)

lemma parseDate_catch: "parseDate rt now (JObj [(utf16 ''toString'', v)]) = DateMs now"
  by (simp add: parseDate_def)

lemma normalizeJob_wwr_unparseable:
  assumes "Date_parse rt (utf16 pubDate) = None"
    and "normalizeJob rt now (wwr_item link pubDate) weworkremotely = Inr job"
  shows "postedAt job = InvalidDate"
proof -
  have "optProp (wwr_item link pubDate) (utf16 ''pubDate'') = JStr (utf16 pubDate)"
    by (simp add: wwr_item_def utf16_def)
  with assms show ?thesis
    by (auto simp add: normalizeJob_def parseDate_unparseable Let_def
        split: sum.splits jsval.splits)
qed

text \<open>
  C3, at a failing input. A We Work Remotely item whose \<open>pubDate\<close> is the string
  \<open>not a date\<close> is normalized without a throw, but its \<open>postedAt\<close> is the invalid date,
  not the current time (the clock reads 1000 here); the time filter then drops the job.
\<close>

theorem normalizeJob_unparseable_date_is_invalid:
  "map_sum id postedAt
     (normalizeJob sample_runtime 1000
        (wwr_item ''https://weworkremotely.com/jobs/123'' ''not a date'') weworkremotely)
   = Inr InvalidDate
   \<and> InvalidDate \<noteq> DateMs 1000
   \<and> filterByTime 1000 [sample_job ''weworkremotely-123'' InvalidDate] 24 = []"
  by (simp add: normalizeJob_def wwr_item_def parseDate_def parsedDate_def sample_runtime_def
      extractCompanyFromTitle_def isDigit_def Let_def filterByTime_def sample_job_def utf16_def)

text \<open>Where the id comes from, branch by branch.\<close>

lemma getProp_Inr: "getProp v k = Inr x \<Longrightarrow> optProp v k = x"
  by (cases v) auto

lemma normalizeJob_remoteok_id:
  "normalizeJob rt now rawJob remoteok = Inr job \<Longrightarrow>
     \<exists>i. ToString rt (optProp rawJob (utf16 ''id'')) = Inr i \<and> job_id job = utf16 ''remoteok-'' @ i"
  by (auto simp add: normalizeJob_def simp del: ToString.simps ToNumber.simps
      split: sum.splits dest!: getProp_Inr)

lemma normalizeJob_web3career_id:
  "src \<noteq> remoteok \<Longrightarrow> src \<noteq> weworkremotely \<Longrightarrow> normalizeJob rt now rawJob src = Inr job \<Longrightarrow>
     \<exists>i. ToString rt (optProp rawJob (utf16 ''id'')) = Inr i \<and> job_id job = utf16 ''web3career-'' @ i"
  by (auto simp add: normalizeJob_def simp del: ToString.simps ToNumber.simps
      split: sum.splits if_splits dest!: getProp_Inr)

lemma normalizeJob_wwr_id:
  "normalizeJob rt now rawJob weworkremotely = Inr job \<Longrightarrow>
     \<exists>link. optProp rawJob (utf16 ''link'') = JStr link
       \<and> job_id job = utf16 ''weworkremotely-''
            @ (case matchNumericSegment link of
                 Some m \<Rightarrow> m
               | None \<Rightarrow> numberToString rt (Finite (of_int now)))"
  by (auto simp add: normalizeJob_def Let_def simp del: numberToString.simps
      split: jsval.splits sum.splits option.splits dest!: getProp_Inr)

lemma normalizeJob_id_prefix:
  assumes "src = remoteok \<or> src = weworkremotely \<or> src = web3career"
    and "normalizeJob rt now rawJob src = Inr job"
  shows "prefix (source_name src @ utf16 ''-'') (job_id job)"
proof -
  consider "src = remoteok" | "src = weworkremotely" | "src = web3career"
    using assms(1) by blast
  then show ?thesis
  proof cases
    case 1
    with assms(2) normalizeJob_remoteok_id [of rt now rawJob job] show ?thesis
      by (auto simp add: utf16_def)
  next
    case 2
    with assms(2) normalizeJob_wwr_id [of rt now rawJob job] show ?thesis
      by (auto simp add: utf16_def)
  next
    case 3
    with assms(2) normalizeJob_web3career_id [of src rt now rawJob job] show ?thesis
      by (auto simp add: utf16_def)
  qed
qed

lemma normalizeJob_id_stable:
  assumes "src = remoteok \<or> src = web3career
           \<or> (\<exists>link m. optProp rawJob (utf16 ''link'') = JStr link
                 \<and> matchNumericSegment link = Some m)"
  shows "map_sum id job_id (normalizeJob rt now rawJob src)
         = map_sum id job_id (normalizeJob rt now2 rawJob src)"
proof (cases "rawJob = JUndefined \<or> rawJob = JNull")
  case True
  then show ?thesis
    by (auto simp add: normalizeJob_def)
next
  case False
  then have p: "getProp rawJob k = Inr (optProp rawJob k)" for k
    by (cases rawJob) simp_all
  from assms show ?thesis
    by (auto simp add: normalizeJob_def Let_def p
        simp del: ToString.simps ToNumber.simps numberToString.simps
        split: jsval.splits sum.splits)
qed

text \<open>
  C4, at a failing input. The link of this We Work Remotely item has no slash followed by
  a digit, so its id is made of the clock: normalized when the clock reads 1000 and again
  when it reads 2000, the same record gets two different ids.
\<close>

theorem normalizeJob_id_not_stable:
  "map_sum id job_id
     (normalizeJob sample_runtime 1000
        (wwr_item ''https://weworkremotely.com/remote-jobs/acme-senior-developer''
           ''1970-01-02T00:00:00.000Z'') weworkremotely)
   = Inr (utf16 ''weworkremotely-1000'')
   \<and> map_sum id job_id
     (normalizeJob sample_runtime 2000
        (wwr_item ''https://weworkremotely.com/remote-jobs/acme-senior-developer''
           ''1970-01-02T00:00:00.000Z'') weworkremotely)
   = Inr (utf16 ''weworkremotely-2000'')"
  by (simp add: normalizeJob_def wwr_item_def extractCompanyFromTitle_def isDigit_def Let_def
      intToString_def toRadix_small toRadix_large digit_def utf16_def)

text \<open>
  Ids of records normalized under different source tags differ, whatever the records:
  the tag is the start of the id.
\<close>

lemma normalizeJob_ids_differ_across_sources:
  assumes "src1 \<noteq> src2" "src1 \<in> {remoteok, weworkremotely, web3career}"
    and "src2 \<in> {remoteok, weworkremotely, web3career}"
    and "normalizeJob rt now1 raw1 src1 = Inr job1" "normalizeJob rt now2 raw2 src2 = Inr job2"
  shows "job_id job1 \<noteq> job_id job2"
proof -
  have p: "\<exists>rest. job_id job = source_name src @ utf16 ''-'' @ rest"
    if "src \<in> {remoteok, weworkremotely, web3career}" "normalizeJob rt now raw src = Inr job"
    for src now raw job
    using normalizeJob_id_prefix [of src rt now raw job] that by (auto simp add: prefix_def)
  from assms p [of src1 now1 raw1 job1] p [of src2 now2 raw2 job2]
  obtain r1 r2 where "job_id job1 = source_name src1 @ utf16 ''-'' @ r1"
    "job_id job2 = source_name src2 @ utf16 ''-'' @ r2"
    by blast
  with assms(1-3) show ?thesis
    by (auto simp add: utf16_def)
qed

text \<open>
  C5, at a failing input. These two We Work Remotely items have different links, and
  both get the id \<open>weworkremotely-3\<close>: the id is the first run of digits after a slash,
  here the \<open>3\<close> of \<open>3d-artist\<close> and of \<open>3d-animator\<close>.
\<close>

theorem normalizeJob_ids_collide:
  "utf16 ''https://weworkremotely.com/remote-jobs/3d-artist''
     \<noteq> utf16 ''https://weworkremotely.com/remote-jobs/3d-animator''
   \<and> map_sum id job_id
       (normalizeJob sample_runtime 1000
          (wwr_item ''https://weworkremotely.com/remote-jobs/3d-artist''
             ''1970-01-02T00:00:00.000Z'') weworkremotely)
     = Inr (utf16 ''weworkremotely-3'')
   \<and> map_sum id job_id
       (normalizeJob sample_runtime 1000
          (wwr_item ''https://weworkremotely.com/remote-jobs/3d-animator''
             ''1970-01-02T00:00:00.000Z'') weworkremotely)
     = Inr (utf16 ''weworkremotely-3'')"
  by (simp add: normalizeJob_def wwr_item_def extractCompanyFromTitle_def isDigit_def Let_def
      utf16_def)

text \<open>
  The string hash is not injective either: \<open>Aa\<close> and \<open>BB\<close> have the same hash, so two
  Jobicy items with these links get the same id.
\<close>

lemma hashString_collides:
  "hashString (utf16 ''Aa'') = utf16 ''1mo'' \<and> hashString (utf16 ''BB'') = utf16 ''1mo''
   \<and> jobicy_id (utf16 ''Aa'') = jobicy_id (utf16 ''BB'')"
  by (simp add: jobicy_id_def hashString_def toRadix_small toRadix_large digit_def utf16_def)

section \<open>Properties of the feed adapter\<close>

text \<open>
  What the outer \<open>catch\<close> does: when the request fails, or the XML parser throws on the
  body, with the thrown value \<open>e\<close>, \<open>fetchWWRJobs\<close> throws \<open>e\<close> again, unless \<open>e\<close> is an
  \<open>Error\<close> whose message includes \<open>XML\<close>, in which case it returns the empty list. And
  when the parser returns an object with no \<open>rss\<close> element, there is no item and the
  adapter returns the empty list.
\<close>

lemma parseFeed_failure:
  assumes "response = Inl e \<or> (\<exists>data. response = Inr data \<and> XML_parse rt data = Inl e)"
  shows "parseFeed rt now response = Inl e"
  using assms by (auto simp add: parseFeed_def)

lemma fetchWWRJobs_failure:
  assumes "response = Inl e \<or> (\<exists>data. response = Inr data \<and> XML_parse rt data = Inl e)"
  shows "fetchWWRJobs rt now response =
       (if (\<exists>message. e = Error message \<and> includes_str message (utf16 ''XML'')) then Inr []
        else Inl e)"
proof -
  from assms have "parseFeed rt now response = Inl e"
    by (rule parseFeed_failure)
  then show ?thesis
    by (cases e) (simp_all add: fetchWWRJobs_def)
qed

lemma fetchWWRJobs_no_rss:
  assumes "XML_parse rt data = Inr (JObj kvs)" "map_of kvs (utf16 ''rss'') = None"
  shows "fetchWWRJobs rt now (Inr data) = Inr []"
  using assms by (simp add: fetchWWRJobs_def parseFeed_def)

lemma fetchWWRJobs_sample_feed:
  "fetchWWRJobs sample_runtime 1000 (Inr (JStr sample_feed))
     = Inr [\<lparr> job_id = utf16 ''weworkremotely-123'',
              title = JStr (utf16 ''Senior Developer @ Acme''),
              company = JStr (utf16 ''Acme''), description = JStr [],
              url = JStr (utf16 ''https://weworkremotely.com/jobs/123''),
              postedAt = DateMs 86400000, source = weworkremotely \<rparr>]"
  by (simp add: fetchWWRJobs_def parseFeed_def sample_runtime_def sample_xml_def sample_feed_def
      normalizeJob_def extractCompanyFromTitle_def isDigit_def isWhiteSpace_def
      isLineTerminator_def trim_def parseDate_def parsedDate_def or_else_def Let_def utf16_def)

text \<open>
  C2, at a failing input. The request succeeds with the body \<open>invalid xml\<close>, which is
  not well-formed XML. The parser reports nothing and returns the empty object, and
  \<open>fetchWWRJobs\<close> returns the empty list: no error reaches the caller.
\<close>

theorem fetchWWRJobs_invalid_xml_returns_empty:
  "XML_parse sample_runtime (JStr (utf16 ''invalid xml'')) = Inr (JObj [])
   \<and> fetchWWRJobs sample_runtime 1000 (Inr (JStr (utf16 ''invalid xml''))) = Inr []"
  by (simp add: fetchWWRJobs_def parseFeed_def sample_runtime_def sample_xml_def utf16_def)

section \<open>Properties of the dedup store\<close>

text \<open>
  On a store whose \<open>jobIds\<close> is an array (and so on a missing or unreadable file, which
  loads as the empty array), \<open>saveProcessedJob\<close> is the round trip that the spec
  describes: when it returns, the id is an element of what is loaded next and no id that
  was stored is lost; it returns when the directory and the file can be written; it
  changes nothing when the id is present.
\<close>

lemma jsonCleanElements_append:
  "jsonCleanElements (xs @ ys) = jsonCleanElements xs @ jsonCleanElements ys"
  by (induction xs) simp_all

lemma jsonCleanElements_keeps: "JStr i \<in> set xs \<Longrightarrow> JStr i \<in> set (jsonCleanElements xs)"
  by (induction xs) auto

lemma saveProcessedJob_array:
  assumes "loadProcessedJobs d = JArr xs"
  shows "saveProcessedJob rt io now jobId d =
     (if d = NoDirectory \<and> mkdir_fault io \<noteq> None then (mkdir_fault io, NoDirectory)
      else if JStr jobId \<in> set xs then (None, d)
      else if write_fault io \<noteq> None then (write_fault io, if d = NoDirectory then NoFile else d)
      else (None, Stored (jsonClean
              (JObj [(utf16 ''jobIds'', JArr (xs @ [JStr jobId])),
                     (utf16 ''lastUpdated'', JStr (toISOString rt now))]))))"
proof (cases "d = NoDirectory")
  case True
  with assms have "xs = []"
    by simp
  with True show ?thesis
    by (cases "mkdir_fault io"; cases "write_fault io")
       (simp_all add: saveProcessedJob_def mkdir_def writeFile_def)
next
  case False
  with assms show ?thesis
    by (cases "write_fault io")
       (simp_all add: saveProcessedJob_def mkdir_def writeFile_def Let_def)
qed

lemma saveProcessedJob_returns:
  assumes "loadProcessedJobs d = JArr xs" "saveProcessedJob rt io now jobId d = (None, d1)"
  shows "\<exists>ys. loadProcessedJobs d1 = JArr ys \<and> JStr jobId \<in> set ys
           \<and> (\<forall>i. JStr i \<in> set xs \<longrightarrow> JStr i \<in> set ys)"
  using assms(2) assms(1) unfolding saveProcessedJob_array [OF assms(1)]
  by (auto simp add: or_else_def jsonCleanElements_append jsonCleanElements_keeps
      split: if_splits)

lemma saveProcessedJob_ok:
  assumes "mkdir_fault io = None" "write_fault io = None" "loadProcessedJobs d = JArr xs"
  shows "fst (saveProcessedJob rt io now jobId d) = None"
    and "loadProcessedJobs (snd (saveProcessedJob rt io now jobId d)) =
           (if JStr jobId \<in> set xs then JArr xs
            else JArr (jsonCleanElements xs @ [JStr jobId]))"
  using assms unfolding saveProcessedJob_array [OF assms(3)]
  by (simp_all add: or_else_def jsonCleanElements_append)

lemma saveProcessedJob_present:
  assumes "loadProcessedJobs d = JArr xs" "JStr jobId \<in> set xs"
  shows "saveProcessedJob rt io now jobId d = (None, d)"
proof -
  from assms have "d \<noteq> NoDirectory"
    by auto
  with assms show ?thesis
    unfolding saveProcessedJob_array [OF assms(1)] by simp
qed

lemma saveProcessedJob_roundtrip:
  assumes "loadProcessedJobs d = JArr xs"
  shows "saveProcessedJob rt io now jobId d = (None, d1) \<longrightarrow> isJobProcessed jobId d1 = Inr True"
    and "mkdir_fault io = None \<and> write_fault io = None \<longrightarrow>
           fst (saveProcessedJob rt io now jobId d) = None
           \<and> isJobProcessed jobId (snd (saveProcessedJob rt io now jobId d)) = Inr True"
    and "JStr jobId \<in> set xs \<longrightarrow> saveProcessedJob rt io now jobId d = (None, d)"
    and "xs = [] \<and> mkdir_fault io = None \<and> write_fault io = None \<longrightarrow>
           loadProcessedJobs
             (snd (saveProcessedJob rt io now2 jobId (snd (saveProcessedJob rt io now jobId d))))
           = JArr [JStr jobId]"
proof -
  show "saveProcessedJob rt io now jobId d = (None, d1) \<longrightarrow> isJobProcessed jobId d1 = Inr True"
    using saveProcessedJob_returns [OF assms, of rt io now jobId d1]
    by (auto simp add: isJobProcessed_def)
  show "mkdir_fault io = None \<and> write_fault io = None \<longrightarrow>
           fst (saveProcessedJob rt io now jobId d) = None
           \<and> isJobProcessed jobId (snd (saveProcessedJob rt io now jobId d)) = Inr True"
    using saveProcessedJob_ok [OF _ _ assms, of io rt now jobId]
    by (auto simp add: isJobProcessed_def)
  show "JStr jobId \<in> set xs \<longrightarrow> saveProcessedJob rt io now jobId d = (None, d)"
    using saveProcessedJob_present [OF assms] by blast
  show "xs = [] \<and> mkdir_fault io = None \<and> write_fault io = None \<longrightarrow>
           loadProcessedJobs
             (snd (saveProcessedJob rt io now2 jobId (snd (saveProcessedJob rt io now jobId d))))
           = JArr [JStr jobId]"
  proof
    assume a: "xs = [] \<and> mkdir_fault io = None \<and> write_fault io = None"
    with saveProcessedJob_ok(2) [OF _ _ assms, of io rt now jobId]
    have one: "loadProcessedJobs (snd (saveProcessedJob rt io now jobId d)) = JArr [JStr jobId]"
      by simp
    from a saveProcessedJob_ok(2) [OF _ _ one, of io rt now2 jobId]
    show "loadProcessedJobs
             (snd (saveProcessedJob rt io now2 jobId (snd (saveProcessedJob rt io now jobId d))))
           = JArr [JStr jobId]"
      by simp
  qed
qed

lemma saveProcessedJob_sample:
  "saveProcessedJob sample_runtime io_ok 1000 (utf16 ''job1'') NoDirectory
     = (None, Stored (JObj [(utf16 ''jobIds'', JArr [JStr (utf16 ''job1'')]),
                            (utf16 ''lastUpdated'', JStr (utf16 ''1970-01-02T00:00:00.000Z''))]))
   \<and> saveProcessedJob sample_runtime io_ok 2000 (utf16 ''job1'')
        (Stored (JObj [(utf16 ''jobIds'', JArr [JStr (utf16 ''job1'')]),
                       (utf16 ''lastUpdated'', JStr (utf16 ''1970-01-02T00:00:00.000Z''))]))
     = (None, Stored (JObj [(utf16 ''jobIds'', JArr [JStr (utf16 ''job1'')]),
                            (utf16 ''lastUpdated'', JStr (utf16 ''1970-01-02T00:00:00.000Z''))]))"
  by (simp add: saveProcessedJob_def mkdir_def writeFile_def io_ok_def sample_runtime_def
      or_else_def utf16_def)

text \<open>
  C8, at a failing input. The store file holds JSON whose \<open>jobIds\<close> is not an array: a
  corrupt store, which \<open>loadProcessedJobs\<close> returns as it is. With the number 5 for
  \<open>jobIds\<close>, adding \<open>job1\<close> throws a \<open>TypeError\<close> though the directory and the file can
  be written, the file is left as it was, and what is loaded next is the number 5. With
  the string \<open>job12\<close> for \<open>jobIds\<close>, adding \<open>job1\<close> returns without writing, because
  \<open>job1\<close> is a substring of it, and what is loaded next is still the string \<open>job12\<close>,
  not a set of ids with \<open>job1\<close> in it.
\<close>

theorem saveProcessedJob_corrupt_store:
  "saveProcessedJob sample_runtime io_ok 1000 (utf16 ''job1'')
       (Stored (JObj [(utf16 ''jobIds'', JNum (Finite 5))]))
     = (Some TypeError, Stored (JObj [(utf16 ''jobIds'', JNum (Finite 5))]))
   \<and> loadProcessedJobs (Stored (JObj [(utf16 ''jobIds'', JNum (Finite 5))])) = JNum (Finite 5)
   \<and> saveProcessedJob sample_runtime io_ok 1000 (utf16 ''job1'')
       (Stored (JObj [(utf16 ''jobIds'', JStr (utf16 ''job12''))]))
     = (None, Stored (JObj [(utf16 ''jobIds'', JStr (utf16 ''job12''))]))
   \<and> loadProcessedJobs (Stored (JObj [(utf16 ''jobIds'', JStr (utf16 ''job12''))]))
     = JStr (utf16 ''job12'')"
  by (simp add: saveProcessedJob_def mkdir_def io_ok_def or_else_def utf16_def)

section \<open>Properties of the scoring stage\<close>

lemma scoreJobs_ok:
  assumes "mkdir_fault io = None" "write_fault io = None"
    and "loadProcessedJobs d = JArr xs"
    and "\<forall>job \<in> set jobs. \<not> isl (ToString rt (title job))"
  shows "\<exists>d1 ys. scoreJobs rt io now analyze jobs (analyzedJobs, attempted, d)
            = (None, (analyzedJobs @ successes analyze jobs, attempted @ jobs, d1))
          \<and> loadProcessedJobs d1 = JArr ys
          \<and> (\<forall>i. JStr i \<in> set xs \<longrightarrow> JStr i \<in> set ys)
          \<and> (\<forall>job \<in> set jobs. JStr (job_id job) \<in> set ys)"
  using assms(3,4)
proof (induction jobs arbitrary: analyzedJobs attempted d xs)
  case Nil
  then show ?case by simp
next
  case (Cons job rest)
  from Cons.prems(2) obtain announced where t: "ToString rt (title job) = Inr announced"
    by (cases "ToString rt (title job)") auto
  from saveProcessedJob_ok(1) [OF assms(1,2) Cons.prems(1), of rt now "job_id job"]
  obtain d1 where s: "saveProcessedJob rt io now (job_id job) d = (None, d1)"
    by (cases "saveProcessedJob rt io now (job_id job) d") simp
  from saveProcessedJob_returns [OF Cons.prems(1) s]
  obtain ys where l: "loadProcessedJobs d1 = JArr ys" "JStr (job_id job) \<in> set ys"
    "\<forall>i. JStr i \<in> set xs \<longrightarrow> JStr i \<in> set ys"
    by blast
  from Cons.prems(2) have rest: "\<forall>job \<in> set rest. \<not> isl (ToString rt (title job))"
    by simp
  show ?case
  proof (cases "analyze job")
    case (Inl e)
    from Cons.IH [OF l(1) rest, of analyzedJobs "attempted @ [job]"] l(2,3) t s Inl
    show ?thesis
      by (auto simp del: ToString.simps)
  next
    case (Inr analyzed)
    from Cons.IH [OF l(1) rest, of "analyzedJobs @ [analyzed]" "attempted @ [job]"] l(2,3) t s Inr
    show ?thesis
      by (auto simp del: ToString.simps)
  qed
qed

lemma scoreJobs_append:
  "scoreJobs rt io now analyze (xs @ ys) st =
     (case scoreJobs rt io now analyze xs st of
        (None, st1) \<Rightarrow> scoreJobs rt io now analyze ys st1
      | (Some e, st1) \<Rightarrow> (Some e, st1))"
proof (induction xs arbitrary: st)
  case Nil
  then show ?case by simp
next
  case (Cons job rest)
  obtain analyzedJobs attempted d where st: "st = (analyzedJobs, attempted, d)"
    by (cases st) auto
  show ?case
    unfolding st
    by (simp add: Cons.IH del: ToString.simps split: sum.splits prod.splits option.splits)
qed

text \<open>
  C6, as the code has it. Provided the dedup store works (what it loads is an array of
  ids, and the directory and the file can be written) and the title of every job can be
  rendered for the console: for every list of jobs that enters the scoring stage and
  whatever \<open>analyzeJob\<close> does on each of them (return or throw), the loop returns with
  every job attempted, in order, and with the analyses that succeeded; every job's id is
  then in the dedup store; and for each job, the store holds its id as soon as its own
  attempt is over, before the rest of the batch is scored.
\<close>

theorem scoreJobs_marks_every_job:
  "mkdir_fault io = None \<and> write_fault io = None
     \<and> (\<exists>xs. loadProcessedJobs d = JArr xs)
     \<and> (\<forall>job \<in> set jobs. \<not> isl (ToString rt (title job))) \<longrightarrow>
     (\<exists>d1. scoreJobs rt io now analyze jobs ([], [], d) = (None, (successes analyze jobs, jobs, d1))
           \<and> (\<forall>job \<in> set jobs. isJobProcessed (job_id job) d1 = Inr True))
     \<and> (\<forall>pre job post. jobs = pre @ job # post \<longrightarrow>
          (\<exists>a d2. scoreJobs rt io now analyze (pre @ [job]) ([], [], d) = (None, (a, pre @ [job], d2))
                  \<and> isJobProcessed (job_id job) d2 = Inr True
                  \<and> scoreJobs rt io now analyze jobs ([], [], d)
                      = scoreJobs rt io now analyze post (a, pre @ [job], d2)))"
proof (intro impI conjI allI)
  assume ok: "mkdir_fault io = None \<and> write_fault io = None
     \<and> (\<exists>xs. loadProcessedJobs d = JArr xs)
     \<and> (\<forall>job \<in> set jobs. \<not> isl (ToString rt (title job)))"
  then obtain xs where xs: "loadProcessedJobs d = JArr xs"
    by blast
  from ok scoreJobs_ok [OF _ _ xs, of io jobs rt now analyze "[]" "[]"]
  show "\<exists>d1. scoreJobs rt io now analyze jobs ([], [], d) = (None, (successes analyze jobs, jobs, d1))
           \<and> (\<forall>job \<in> set jobs. isJobProcessed (job_id job) d1 = Inr True)"
    by (auto simp add: isJobProcessed_def)
next
  fix pre job post
  assume ok: "mkdir_fault io = None \<and> write_fault io = None
     \<and> (\<exists>xs. loadProcessedJobs d = JArr xs)
     \<and> (\<forall>job \<in> set jobs. \<not> isl (ToString rt (title job)))"
    and jobs: "jobs = pre @ job # post"
  from ok obtain xs where xs: "loadProcessedJobs d = JArr xs"
    by blast
  from ok jobs have titles: "\<forall>j \<in> set (pre @ [job]). \<not> isl (ToString rt (title j))"
    by simp
  from ok scoreJobs_ok [OF _ _ xs titles, of io now analyze "[]" "[]"]
  obtain d2 ys where
    run: "scoreJobs rt io now analyze (pre @ [job]) ([], [], d)
            = (None, (successes analyze (pre @ [job]), pre @ [job], d2))"
    and ids: "loadProcessedJobs d2 = JArr ys" "JStr (job_id job) \<in> set ys"
    by auto
  have "scoreJobs rt io now analyze jobs ([], [], d)
          = scoreJobs rt io now analyze post (successes analyze (pre @ [job]), pre @ [job], d2)"
    using scoreJobs_append [of rt io now analyze "pre @ [job]" post "([], [], d)"] run jobs
    by simp
  with run ids
  show "\<exists>a d2. scoreJobs rt io now analyze (pre @ [job]) ([], [], d) = (None, (a, pre @ [job], d2))
                  \<and> isJobProcessed (job_id job) d2 = Inr True
                  \<and> scoreJobs rt io now analyze jobs ([], [], d)
                      = scoreJobs rt io now analyze post (a, pre @ [job], d2)"
    by (auto simp add: isJobProcessed_def)
qed

lemma sample_analyze_fails: "sample_analyze (sample_job ''1'' (DateMs 5)) = Inl (Error (utf16 ''API Error''))"
  by (simp add: sample_analyze_def analyzeJob_def buildPrompt_def sample_text_def
      sample_background_def sample_reply_def sample_job_def sample_config_def callOpenAI_def
      utf16_def)

lemma sample_analyze_succeeds:
  "sample_analyze (sample_job ''2'' (DateMs 6))
     = Inr (Job.extend (sample_job ''2'' (DateMs 6)) (AnalyzedJob.fields (Finite 8) (utf16 ''x'')))"
  by (simp add: sample_analyze_def analyzeJob_def buildPrompt_def sample_text_def
      sample_background_def sample_reply_def sample_job_def sample_config_def callOpenAI_def
      openai_reply_def or_else_def parseContent_def parseAIResponse_def stripFences_def trim_def
      isWhiteSpace_def startsWith_def sample_runtime_def sample_json_def validateParsed_def
      isNaN_def Job.extend_def AnalyzedJob.fields_def utf16_def)

theorem scoreJobs_marks_every_job_witness:
  "scoreJobs sample_runtime io_ok 1000 sample_analyze
     [sample_job ''1'' (DateMs 5), sample_job ''2'' (DateMs 6)] ([], [], NoDirectory)
   = (None,
      ([Job.extend (sample_job ''2'' (DateMs 6)) (AnalyzedJob.fields (Finite 8) (utf16 ''x''))],
       [sample_job ''1'' (DateMs 5), sample_job ''2'' (DateMs 6)],
       Stored (JObj [(utf16 ''jobIds'', JArr [JStr (utf16 ''1''), JStr (utf16 ''2'')]),
                     (utf16 ''lastUpdated'', JStr (utf16 ''1970-01-02T00:00:00.000Z''))])))
   \<and> isJobProcessed (utf16 ''1'')
       (Stored (JObj [(utf16 ''jobIds'', JArr [JStr (utf16 ''1''), JStr (utf16 ''2'')]),
                      (utf16 ''lastUpdated'', JStr (utf16 ''1970-01-02T00:00:00.000Z''))]))
     = Inr True
   \<and> isJobProcessed (utf16 ''2'')
       (Stored (JObj [(utf16 ''jobIds'', JArr [JStr (utf16 ''1''), JStr (utf16 ''2'')]),
                      (utf16 ''lastUpdated'', JStr (utf16 ''1970-01-02T00:00:00.000Z''))]))
     = Inr True"
proof -
  have titles: "ToString sample_runtime (title (sample_job ''1'' (DateMs 5))) = Inr (utf16 ''Job 1'')"
    "ToString sample_runtime (title (sample_job ''2'' (DateMs 6))) = Inr (utf16 ''Job 2'')"
    by (simp_all add: sample_job_def utf16_def)
  have ids: "job_id (sample_job ''1'' (DateMs 5)) = utf16 ''1''"
    "job_id (sample_job ''2'' (DateMs 6)) = utf16 ''2''"
    by (simp_all add: sample_job_def)
  have s1: "saveProcessedJob sample_runtime io_ok 1000 (utf16 ''1'') NoDirectory
     = (None, Stored (JObj [(utf16 ''jobIds'', JArr [JStr (utf16 ''1'')]),
                            (utf16 ''lastUpdated'', JStr (utf16 ''1970-01-02T00:00:00.000Z''))]))"
    by (simp add: saveProcessedJob_def mkdir_def writeFile_def io_ok_def sample_runtime_def
        or_else_def utf16_def)
  have s2: "saveProcessedJob sample_runtime io_ok 1000 (utf16 ''2'')
        (Stored (JObj [(utf16 ''jobIds'', JArr [JStr (utf16 ''1'')]),
                       (utf16 ''lastUpdated'', JStr (utf16 ''1970-01-02T00:00:00.000Z''))]))
     = (None, Stored (JObj [(utf16 ''jobIds'', JArr [JStr (utf16 ''1''), JStr (utf16 ''2'')]),
                            (utf16 ''lastUpdated'', JStr (utf16 ''1970-01-02T00:00:00.000Z''))]))"
    by (simp add: saveProcessedJob_def mkdir_def writeFile_def io_ok_def sample_runtime_def
        or_else_def utf16_def)
  have run: "scoreJobs sample_runtime io_ok 1000 sample_analyze
       [sample_job ''1'' (DateMs 5), sample_job ''2'' (DateMs 6)] ([], [], NoDirectory)
     = (None,
        ([Job.extend (sample_job ''2'' (DateMs 6)) (AnalyzedJob.fields (Finite 8) (utf16 ''x''))],
         [sample_job ''1'' (DateMs 5), sample_job ''2'' (DateMs 6)],
         Stored (JObj [(utf16 ''jobIds'', JArr [JStr (utf16 ''1''), JStr (utf16 ''2'')]),
                       (utf16 ''lastUpdated'', JStr (utf16 ''1970-01-02T00:00:00.000Z''))])))"
    by (simp add: titles ids sample_analyze_fails sample_analyze_succeeds s1 s2
        del: ToString.simps)
  have ok: "mkdir_fault io_ok = None \<and> write_fault io_ok = None
      \<and> (\<exists>xs. loadProcessedJobs NoDirectory = JArr xs)
      \<and> (\<forall>job \<in> set [sample_job ''1'' (DateMs 5), sample_job ''2'' (DateMs 6)].
            \<not> isl (ToString sample_runtime (title job)))"
    by (simp add: io_ok_def titles del: ToString.simps)
  from scoreJobs_marks_every_job [THEN mp, OF ok, THEN conjunct1, of 1000 sample_analyze] run
  show ?thesis
    by (auto simp add: ids)
qed

text \<open>
  The claim as the spec words it has every job marked and every job attempted, whatever
  happens. When the store file cannot be written, the first job's attempt ends with the
  exception of \<open>saveProcessedJob\<close> in the \<open>catch\<close>, which leaves the loop: the id of the
  first job is not in the store, and the second job is never attempted.
\<close>

theorem scoreJobs_write_fault_aborts:
  "scoreJobs sample_runtime
       \<lparr> mkdir_fault = None, write_fault = Some (Error (utf16 ''EACCES: permission denied'')) \<rparr>
       1000 sample_analyze
       [sample_job ''1'' (DateMs 5), sample_job ''2'' (DateMs 6)] ([], [], NoFile)
   = (Some (Error (utf16 ''EACCES: permission denied'')),
      ([], [sample_job ''1'' (DateMs 5)], NoFile))
   \<and> isJobProcessed (utf16 ''1'') NoFile = Inr False"
proof -
  have titles: "ToString sample_runtime (title (sample_job ''1'' (DateMs 5))) = Inr (utf16 ''Job 1'')"
    by (simp add: sample_job_def utf16_def)
  show ?thesis
    by (simp add: titles sample_analyze_fails saveProcessedJob_def mkdir_def writeFile_def
        isJobProcessed_def del: ToString.simps)
qed

end
